theory Spec2Isabelle
  imports Main "HOL-Library.Word" "HOL-Library.Char_ord" "HOL-Library.List_Lexorder"
begin

section \<open>Go strings and slices\<close>

text \<open>
  The package patchutils of github.com/google/go-patchutils. The repository holds two
  revisions of its one source file: src/patchutils.go, the earlier one, and
  src/unnamed/part_003, the later one, which adds the error ErrContentMismatch, the
  line-diff of added lines in the merger (interAddedLines), the swap of the coordinates in
  the inverter (revertedHunk) and the nil patch, and drops the test against the end of the
  source in applyDiff. A function that is the same in both revisions is modelled once. Where
  the revisions differ, the later one has the plain name and the earlier one the suffix
  \<open>_v1\<close> (revertedHunkBody, the earlier inverter, keeps its own name).
\<close>

text \<open>
  A Go string is a sequence of bytes: \<open>string\<close>. The package only ever splits at the
  one-byte separator "\n", so \<open>Split\<close> takes the separator as one byte; \<open>Join\<close> takes it
  as a string.
\<close>

abbreviation NL :: char where
  "NL \<equiv> CHR 0x0A"

text \<open>strings.HasPrefix(s, prefix)\<close>

definition HasPrefix :: "string \<Rightarrow> string \<Rightarrow> bool" where
  "HasPrefix s prefix = (take (length prefix) s = prefix)"

text \<open>strings.HasSuffix and strings.TrimSuffix(s, suffix)\<close>

definition HasSuffix :: "string \<Rightarrow> string \<Rightarrow> bool" where
  "HasSuffix s suffix =
     (length suffix \<le> length s \<and> drop (length s - length suffix) s = suffix)"

definition TrimSuffix :: "string \<Rightarrow> string \<Rightarrow> string" where
  "TrimSuffix s suffix =
     (if HasSuffix s suffix then take (length s - length suffix) s else s)"

text \<open>strings.Split(s, sep) for a separator of one byte; \<open>Split "" sep\<close> is \<open>[""]\<close>.\<close>

fun Split :: "string \<Rightarrow> char \<Rightarrow> string list" where
  "Split [] sep = [[]]"
| "Split (c # cs) sep =
     (if c = sep then [] # Split cs sep
      else (case Split cs sep of [] \<Rightarrow> [[c]] | l # ls \<Rightarrow> (c # l) # ls))"

text \<open>strings.Join(elems, sep)\<close>

fun Join :: "string list \<Rightarrow> string \<Rightarrow> string" where
  "Join [] sep = []"
| "Join [l] sep = l"
| "Join (l # l' # ls) sep = l @ sep @ Join (l' # ls) sep"

section \<open>The data model of go-diff\<close>

type_synonym int32 = "32 word"

text \<open>
  diff.Hunk and diff.FileDiff of github.com/sourcegraph/go-diff, field by field. The line
  numbers are int32; a time stamp is a pointer to an opaque value.
\<close>

record Hunk =
  OrigStartLine :: int32
  OrigLines :: int32
  OrigNoNewlineAt :: int32
  NewStartLine :: int32
  NewLines :: int32
  Section :: string
  StartPosition :: int32
  Body :: string

record FileDiff =
  OrigName :: string
  OrigTime :: "nat option"
  NewName :: string
  NewTime :: "nat option"
  Extended :: "string list"
  Hunks :: "Hunk list"

text \<open>
  The errors of the package. \<open>ErrContentMismatch\<close> and \<open>ErrEmptyDiffFile\<close> are the
  sentinels of the later revision; the earlier revision of patchutils.go reports a line that
  differs and a hunk that runs past the source with two messages of its own. \<open>Panic\<close> is a
  run-time panic of Go (an index or a slice out of range).
\<close>

datatype error =
    ErrContentMismatch
  | ErrEmptyDiffFile
  | ErrOutOfSourceContent
  | ErrLinesNotSame
  | ErrEmptyHunksArray
  | Panic

section \<open>The hunk inverter\<close>

text \<open>revertedLine: the slice \<open>line[1:]\<close> is taken only after the prefix matched.\<close>

definition revertedLine :: "string \<Rightarrow> string" where
  "revertedLine line =
     (if HasPrefix line ''+'' then ''-'' @ tl line
      else if HasPrefix line ''-'' then ''+'' @ tl line
      else line)"

text \<open>revertedHunkBody of src/patchutils.go: the coordinates are copied as they are.\<close>

definition revertedHunkBody :: "Hunk \<Rightarrow> Hunk" where
  "revertedHunkBody hunk =
     \<lparr> OrigStartLine = OrigStartLine hunk,
       OrigLines = OrigLines hunk,
       OrigNoNewlineAt = OrigNoNewlineAt hunk,
       NewStartLine = NewStartLine hunk,
       NewLines = NewLines hunk,
       Section = Section hunk,
       StartPosition = StartPosition hunk,
       Body = Join (map revertedLine (Split (Body hunk) NL)) [NL] @ [NL] \<rparr>"

text \<open>revertedHunk of the later revision (src/unnamed/part_003): the pairs are swapped.\<close>

definition revertedHunk :: "Hunk \<Rightarrow> Hunk" where
  "revertedHunk hunk =
     \<lparr> OrigStartLine = NewStartLine hunk,
       OrigLines = NewLines hunk,
       OrigNoNewlineAt = OrigNoNewlineAt hunk,
       NewStartLine = OrigStartLine hunk,
       NewLines = OrigLines hunk,
       Section = Section hunk,
       StartPosition = StartPosition hunk,
       Body = Join (map revertedLine (Split (Body hunk) NL)) [NL] @ [NL] \<rparr>"

text \<open>revertHunks of the later revision: every hunk of the file diff is replaced.\<close>

definition revertHunks :: "FileDiff \<Rightarrow> FileDiff" where
  "revertHunks diffFile = diffFile\<lparr> Hunks := map revertedHunk (Hunks diffFile) \<rparr>"

section \<open>The patch applier\<close>

text \<open>
  A slice expression \<open>s[lo:hi]\<close> and an index expression \<open>s[k]\<close> of Go panic out of range.
  The slices of this package come from strings.Split, whose capacity is their length.
\<close>

definition sliceExpr :: "'a list \<Rightarrow> int \<Rightarrow> int \<Rightarrow> error + 'a list" where
  "sliceExpr xs lo hi =
     (if 0 \<le> lo \<and> lo \<le> hi \<and> hi \<le> int (length xs)
      then Inr (take (nat (hi - lo)) (drop (nat lo) xs)) else Inl Panic)"

definition indexExpr :: "'a list \<Rightarrow> int \<Rightarrow> error + 'a" where
  "indexExpr xs k = (if 0 \<le> k \<and> k < int (length xs) then Inr (xs ! nat k) else Inl Panic)"

text \<open>
  The inner loop of applyDiff in src/patchutils.go over the lines of one hunk body. The
  state is the pair of currentOrgSourceI and newBody. The guard against the end of the
  source comes first, for every line; \<open>line[1:]\<close> panics on an empty line.
\<close>

fun applyLines_v1 ::
  "string list \<Rightarrow> string list \<Rightarrow> int32 \<times> string list \<Rightarrow> error + int32 \<times> string list"
where
  "applyLines_v1 sourceBody [] (currentOrgSourceI, newBody) = Inr (currentOrgSourceI, newBody)"
| "applyLines_v1 sourceBody (line # rest) (currentOrgSourceI, newBody) =
     (if word_of_nat (length sourceBody) <s currentOrgSourceI then Inl ErrOutOfSourceContent
      else if HasPrefix line ''+''
        then applyLines_v1 sourceBody rest (currentOrgSourceI, newBody @ [tl line])
      else (case line of
          [] \<Rightarrow> Inl Panic
        | _ # payload \<Rightarrow>
            (case indexExpr sourceBody (sint (currentOrgSourceI - 1)) of
              Inl e \<Rightarrow> Inl e
            | Inr src \<Rightarrow>
                if payload \<noteq> src then Inl ErrLinesNotSame
                else applyLines_v1 sourceBody rest
                  (currentOrgSourceI + 1,
                   if HasPrefix line '' '' then newBody @ [src] else newBody))))"

text \<open>The same loop in the later revision: the guard is gone, the error is the sentinel.\<close>

fun applyLines ::
  "string list \<Rightarrow> string list \<Rightarrow> int32 \<times> string list \<Rightarrow> error + int32 \<times> string list"
where
  "applyLines sourceBody [] (currentOrgSourceI, newBody) = Inr (currentOrgSourceI, newBody)"
| "applyLines sourceBody (line # rest) (currentOrgSourceI, newBody) =
     (if HasPrefix line ''+''
        then applyLines sourceBody rest (currentOrgSourceI, newBody @ [tl line])
      else (case line of
          [] \<Rightarrow> Inl Panic
        | _ # payload \<Rightarrow>
            (case indexExpr sourceBody (sint (currentOrgSourceI - 1)) of
              Inl e \<Rightarrow> Inl e
            | Inr src \<Rightarrow>
                if payload \<noteq> src then Inl ErrContentMismatch
                else applyLines sourceBody rest
                  (currentOrgSourceI + 1,
                   if HasPrefix line '' '' then newBody @ [src] else newBody))))"

text \<open>
  The outer loop over the hunks, with the loop over the lines as a parameter: the untouched
  part of the source before the hunk, then the lines of the hunk.
\<close>

fun applyHunks ::
  "(string list \<Rightarrow> string list \<Rightarrow> int32 \<times> string list \<Rightarrow> error + int32 \<times> string list) \<Rightarrow>
   string list \<Rightarrow> Hunk list \<Rightarrow> int32 \<times> string list \<Rightarrow> error + int32 \<times> string list"
where
  "applyHunks lines sourceBody [] st = Inr st"
| "applyHunks lines sourceBody (hunk # hunks) (currentOrgSourceI, newBody) =
     (case sliceExpr sourceBody (sint (currentOrgSourceI - 1)) (sint (OrigStartLine hunk - 1)) of
        Inl e \<Rightarrow> Inl e
      | Inr untouched \<Rightarrow>
          (case lines sourceBody (Split (TrimSuffix (Body hunk) [NL]) NL)
                  (OrigStartLine hunk, newBody @ untouched) of
             Inl e \<Rightarrow> Inl e
           | Inr st \<Rightarrow> applyHunks lines sourceBody hunks st))"

definition applyTail :: "string list \<Rightarrow> error + int32 \<times> string list \<Rightarrow> error + string" where
  "applyTail sourceBody r =
     (case r of
        Inl e \<Rightarrow> Inl e
      | Inr (currentOrgSourceI, newBody) \<Rightarrow>
          (case sliceExpr sourceBody (sint (currentOrgSourceI - 1)) (int (length sourceBody)) of
             Inl e \<Rightarrow> Inl e
           | Inr rest \<Rightarrow> Inr (Join (newBody @ rest) [NL])))"

text \<open>applyDiff of src/patchutils.go.\<close>

definition applyDiff_v1 :: "string \<Rightarrow> FileDiff \<Rightarrow> error + string" where
  "applyDiff_v1 source diffFile =
     (let sourceBody = Split source NL
      in applyTail sourceBody (applyHunks applyLines_v1 sourceBody (Hunks diffFile) (1, [])))"

text \<open>applyDiff of the later revision; the diff is a pointer, and nil is the empty patch.\<close>

definition applyDiff :: "string \<Rightarrow> FileDiff option \<Rightarrow> error + string" where
  "applyDiff source diffFile =
     (case diffFile of
        None \<Rightarrow> Inr source
      | Some d \<Rightarrow>
          (let sourceBody = Split source NL
           in applyTail sourceBody (applyHunks applyLines sourceBody (Hunks d) (1, []))))"

section \<open>The line-diff primitive\<close>

text \<open>
  dbd.Chunk of github.com/kylelemons/godebug/diff. The function dbd.DiffChunks is a
  library outside this repository: the functions that call it take it as the parameter
  \<open>DiffChunks\<close>.
\<close>

record Chunk =
  Added :: "string list"
  Deleted :: "string list"
  Equal :: "string list"

type_synonym diffChunks = "string list \<Rightarrow> string list \<Rightarrow> Chunk list"

section \<open>The hunk merger\<close>

text \<open>The zero value of diff.Hunk.\<close>

definition zeroHunk :: Hunk where
  "zeroHunk =
     \<lparr> OrigStartLine = 0, OrigLines = 0, OrigNoNewlineAt = 0, NewStartLine = 0,
       NewLines = 0, Section = [], StartPosition = 0, Body = [] \<rparr>"

text \<open>
  configureResultHunk, the same in both revisions: the result hunk with its four numbers,
  and currentOrgI. The body is the one-byte placeholder until the merger fills it.
\<close>

definition configureResultHunk :: "Hunk list \<Rightarrow> Hunk list \<Rightarrow> error + Hunk \<times> int32" where
  "configureResultHunk oldHunks newHunks =
     (if oldHunks = [] \<or> newHunks = [] then Inl ErrEmptyHunksArray
      else
        let firstOldHunk = hd oldHunks; firstNewHunk = hd newHunks;
            lastOldHunk = last oldHunks; lastNewHunk = last newHunks;
            startsOld = OrigStartLine firstOldHunk <s OrigStartLine firstNewHunk;
            currentOrgI =
              (if startsOld then OrigStartLine firstOldHunk else OrigStartLine firstNewHunk);
            origStart =
              (if startsOld then NewStartLine firstOldHunk
               else currentOrgI + NewStartLine firstOldHunk - OrigStartLine firstOldHunk);
            newStart =
              (if startsOld
               then currentOrgI + NewStartLine firstNewHunk - OrigStartLine firstNewHunk
               else NewStartLine firstNewHunk);
            endsOld =
              OrigStartLine lastNewHunk + OrigLines lastNewHunk
                <s OrigStartLine lastOldHunk + OrigLines lastOldHunk;
            origLines =
              (if endsOld then NewStartLine lastOldHunk + NewLines lastOldHunk - origStart
               else NewStartLine lastOldHunk + NewLines lastOldHunk +
                    OrigStartLine lastNewHunk + OrigLines lastNewHunk -
                    OrigStartLine lastOldHunk - OrigLines lastOldHunk - origStart);
            newLines =
              (if endsOld
               then NewStartLine lastNewHunk + NewLines lastNewHunk +
                    OrigStartLine lastOldHunk + OrigLines lastOldHunk -
                    OrigStartLine lastNewHunk - OrigLines lastNewHunk - newStart
               else NewStartLine lastNewHunk + NewLines lastNewHunk - newStart)
        in Inr (\<lparr> OrigStartLine = origStart, OrigLines = origLines, OrigNoNewlineAt = 0,
                  NewStartLine = newStart, NewLines = newLines, Section = [],
                  StartPosition = StartPosition firstOldHunk, Body = [CHR 0x00] \<rparr>,
                currentOrgI))"

text \<open>
  The variables of the loop of mergeOverlappingHunks. \<open>lineI\<close> and \<open>lineJ\<close> are the
  source's \<open>i\<close> and \<open>j\<close>: the index of the current line in the open old and new hunk
  body, or -1 when no hunk is open on that side.
\<close>

record mergeState =
  currentOrgI :: int32
  currentOldHunkI :: nat
  currentNewHunkJ :: nat
  lineI :: int
  lineJ :: int
  newBody :: "string list"
  oldHunkBody :: "string list"
  newHunkBody :: "string list"

definition hunkLines :: "Hunk \<Rightarrow> string list" where
  "hunkLines h = Split (TrimSuffix (Body h) [NL]) NL"

text \<open>Entering the next hunk of \<open>oldHunks\<close>, and of \<open>newHunks\<close>.\<close>

definition enterOld :: "Hunk list \<Rightarrow> mergeState \<Rightarrow> mergeState" where
  "enterOld oldHunks st =
     (if currentOldHunkI st < length oldHunks \<and> lineI st = -1 \<and>
         currentOrgI st = OrigStartLine (oldHunks ! currentOldHunkI st)
      then st\<lparr> lineI := 0, oldHunkBody := hunkLines (oldHunks ! currentOldHunkI st) \<rparr>
      else st)"

definition enterNew :: "Hunk list \<Rightarrow> mergeState \<Rightarrow> mergeState" where
  "enterNew newHunks st =
     (if currentNewHunkJ st < length newHunks \<and> lineJ st = -1 \<and>
         currentOrgI st = OrigStartLine (newHunks ! currentNewHunkJ st)
      then st\<lparr> lineJ := 0, newHunkBody := hunkLines (newHunks ! currentNewHunkJ st) \<rparr>
      else st)"

text \<open>The two closing tests at the end of an iteration.\<close>

definition closeHunks :: "mergeState \<Rightarrow> mergeState" where
  "closeHunks st =
     (let st1 = (if int (length (oldHunkBody st)) \<le> lineI st
                 then st\<lparr> lineI := -1, currentOldHunkI := currentOldHunkI st + 1 \<rparr> else st)
      in if int (length (newHunkBody st1)) \<le> lineJ st1
         then st1\<lparr> lineJ := -1, currentNewHunkJ := currentNewHunkJ st1 + 1 \<rparr> else st1)"

text \<open>The cases where at most one side is open; they are the same in both revisions.\<close>

definition oldOnly :: "mergeState \<Rightarrow> error + mergeState" where
  "oldOnly st =
     (case indexExpr (oldHunkBody st) (lineI st) of
        Inl e \<Rightarrow> Inl e
      | Inr line \<Rightarrow>
          Inr (st\<lparr> newBody := newBody st @ [revertedLine line],
                   currentOrgI :=
                     (if \<not> HasPrefix line ''+'' then currentOrgI st + 1 else currentOrgI st),
                   lineI := lineI st + 1 \<rparr>))"

definition newOnly :: "mergeState \<Rightarrow> error + mergeState" where
  "newOnly st =
     (case indexExpr (newHunkBody st) (lineJ st) of
        Inl e \<Rightarrow> Inl e
      | Inr line \<Rightarrow>
          Inr (st\<lparr> newBody := newBody st @ [line],
                   currentOrgI :=
                     (if \<not> HasPrefix line ''+'' then currentOrgI st + 1 else currentOrgI st),
                   lineJ := lineJ st + 1 \<rparr>))"

text \<open>
  The innermost switch on the prefixes of two anchor lines, then the three increments.
  When both sides delete the line nothing is appended.
\<close>

definition anchorLines :: "string \<Rightarrow> string \<Rightarrow> mergeState \<Rightarrow> mergeState" where
  "anchorLines oldLine newLine st =
     (let body =
        (if HasPrefix oldLine '' '' \<and> HasPrefix newLine '' '' then newBody st @ [oldLine]
         else if HasPrefix oldLine ''-'' \<and> HasPrefix newLine '' ''
           then newBody st @ [revertedLine oldLine]
         else if HasPrefix oldLine '' '' \<and> HasPrefix newLine ''-'' then newBody st @ [newLine]
         else newBody st)
      in st\<lparr> newBody := body, currentOrgI := currentOrgI st + 1,
              lineI := lineI st + 1, lineJ := lineJ st + 1 \<rparr>)"

text \<open>
  interAddedLines of the later revision. Its two loops move \<open>i\<close> and \<open>j\<close> past the run of
  added lines that starts there and collect the lines without their prefix; then every
  chunk of the line-diff is printed: added, deleted and equal lines, in this order.
\<close>

definition addedRun :: "string list \<Rightarrow> int \<Rightarrow> string list" where
  "addedRun body k = takeWhile (\<lambda>line. HasPrefix line ''+'') (drop (nat k) body)"

definition chunkLines :: "Chunk \<Rightarrow> string list" where
  "chunkLines c =
     map (\<lambda>line. ''+'' @ line) (Added c) @
     map (\<lambda>line. ''-'' @ line) (Deleted c) @
     map (\<lambda>line. '' '' @ line) (Equal c)"

definition interAddedLines :: "diffChunks \<Rightarrow> mergeState \<Rightarrow> string list \<times> mergeState" where
  "interAddedLines DiffChunks st =
     (let oldRun = addedRun (oldHunkBody st) (lineI st);
          newRun = addedRun (newHunkBody st) (lineJ st);
          chunks = DiffChunks (map tl oldRun) (map tl newRun)
      in (concat (map chunkLines chunks),
          st\<lparr> lineI := lineI st + int (length oldRun),
               lineJ := lineJ st + int (length newRun) \<rparr>))"

text \<open>
  Both sides open, in the later revision: added lines first, else two anchor lines. The
  condition \<open>HasPrefix(oldHunkBody[i], "+") || HasPrefix(newHunkBody[j], "+")\<close> reads the
  new line only when the old line is not an added line.
\<close>

definition addedLines :: "diffChunks \<Rightarrow> mergeState \<Rightarrow> error + mergeState" where
  "addedLines DiffChunks st =
     (case interAddedLines DiffChunks st of
        (lines, st') \<Rightarrow> Inr (st'\<lparr> newBody := newBody st @ lines \<rparr>))"

definition bothOpen :: "diffChunks \<Rightarrow> mergeState \<Rightarrow> error + mergeState" where
  "bothOpen DiffChunks st =
     (case indexExpr (oldHunkBody st) (lineI st) of
        Inl e \<Rightarrow> Inl e
      | Inr oldLine \<Rightarrow>
          if HasPrefix oldLine ''+'' then addedLines DiffChunks st
          else (case indexExpr (newHunkBody st) (lineJ st) of
                  Inl e \<Rightarrow> Inl e
                | Inr newLine \<Rightarrow>
                    if HasPrefix newLine ''+'' then addedLines DiffChunks st
                    else if oldLine = [] \<or> newLine = [] then Inl Panic
                    else if tl oldLine \<noteq> tl newLine then Inl ErrContentMismatch
                    else Inr (anchorLines oldLine newLine st)))"

text \<open>Both sides open, in src/patchutils.go: one added line at a time, and no comparison.\<close>

definition bothOpen_v1 :: "mergeState \<Rightarrow> error + mergeState" where
  "bothOpen_v1 st =
     (case indexExpr (oldHunkBody st) (lineI st) of
        Inl e \<Rightarrow> Inl e
      | Inr oldLine \<Rightarrow>
          if HasPrefix oldLine ''+''
          then Inr (st\<lparr> newBody := newBody st @ [revertedLine oldLine],
                        lineI := lineI st + 1 \<rparr>)
          else (case indexExpr (newHunkBody st) (lineJ st) of
                  Inl e \<Rightarrow> Inl e
                | Inr newLine \<Rightarrow>
                    if HasPrefix newLine ''+''
                    then Inr (st\<lparr> newBody := newBody st @ [newLine], lineJ := lineJ st + 1 \<rparr>)
                    else Inr (anchorLines oldLine newLine st)))"

text \<open>
  One iteration of the loop, with the case of two open hunks as a parameter: enter, switch,
  close. With no hunk open the switch does nothing.
\<close>

definition mergeStep ::
  "(mergeState \<Rightarrow> error + mergeState) \<Rightarrow> Hunk list \<Rightarrow> Hunk list \<Rightarrow> mergeState \<Rightarrow>
   error + mergeState"
where
  "mergeStep both oldHunks newHunks st0 =
     (let st = enterNew newHunks (enterOld oldHunks st0);
          r = (if lineI st = -1 \<and> lineJ st = -1 then Inr st
               else if 0 \<le> lineI st \<and> lineJ st = -1 then oldOnly st
               else if lineI st = -1 \<and> 0 \<le> lineJ st then newOnly st
               else both st)
      in case r of Inl e \<Rightarrow> Inl e | Inr st' \<Rightarrow> Inr (closeHunks st'))"

definition hunksLeft :: "Hunk list \<Rightarrow> Hunk list \<Rightarrow> mergeState \<Rightarrow> bool" where
  "hunksLeft oldHunks newHunks st =
     (currentOldHunkI st < length oldHunks \<or> currentNewHunkJ st < length newHunks)"

text \<open>
  The loop. It does not end when no hunk is open and none starts at currentOrgI, so the
  model counts iterations: \<open>None\<close> is a loop that has not ended within \<open>fuel\<close> iterations.
\<close>

fun mergeLoop ::
  "(mergeState \<Rightarrow> error + mergeState) \<Rightarrow> Hunk list \<Rightarrow> Hunk list \<Rightarrow> nat \<Rightarrow> mergeState \<Rightarrow>
   (error + mergeState) option"
where
  "mergeLoop both oldHunks newHunks 0 st =
     (if hunksLeft oldHunks newHunks st then None else Some (Inr st))"
| "mergeLoop both oldHunks newHunks (Suc fuel) st =
     (if hunksLeft oldHunks newHunks st
      then (case mergeStep both oldHunks newHunks st of
              Inl e \<Rightarrow> Some (Inl e)
            | Inr st' \<Rightarrow> mergeLoop both oldHunks newHunks fuel st')
      else Some (Inr st))"

text \<open>
  The state of the loop after \<open>k\<close> iterations, when the loop condition held before each
  of them and none returned an error.
\<close>

fun mergeSteps ::
  "(mergeState \<Rightarrow> error + mergeState) \<Rightarrow> Hunk list \<Rightarrow> Hunk list \<Rightarrow> nat \<Rightarrow> mergeState \<Rightarrow>
   mergeState option"
where
  "mergeSteps both oldHunks newHunks 0 st = Some st"
| "mergeSteps both oldHunks newHunks (Suc k) st =
     (if hunksLeft oldHunks newHunks st
      then (case mergeStep both oldHunks newHunks st of
              Inl e \<Rightarrow> None
            | Inr st' \<Rightarrow> mergeSteps both oldHunks newHunks k st')
      else None)"

definition initialState :: "int32 \<Rightarrow> mergeState" where
  "initialState org =
     \<lparr> currentOrgI = org, currentOldHunkI = 0, currentNewHunkJ = 0, lineI = -1, lineJ = -1,
       newBody = [], oldHunkBody = [], newHunkBody = [] \<rparr>"

text \<open>
  After the loop: the body is set, and the hunk is returned when some line of it is not a
  context line, else nil.
\<close>

definition mergeWith ::
  "(mergeState \<Rightarrow> error + mergeState) \<Rightarrow> nat \<Rightarrow> Hunk list \<Rightarrow> Hunk list \<Rightarrow>
   (error + Hunk option) option"
where
  "mergeWith both fuel oldHunks newHunks =
     (case configureResultHunk oldHunks newHunks of
        Inl e \<Rightarrow> Some (Inl e)
      | Inr (resultHunk, org) \<Rightarrow>
          (case mergeLoop both oldHunks newHunks fuel (initialState org) of
             None \<Rightarrow> None
           | Some (Inl e) \<Rightarrow> Some (Inl e)
           | Some (Inr st) \<Rightarrow>
               if \<exists>line \<in> set (newBody st). \<not> HasPrefix line '' ''
               then Some (Inr (Some (resultHunk\<lparr> Body := Join (newBody st) [NL] @ [NL] \<rparr>)))
               else Some (Inr None)))"

text \<open>mergeOverlappingHunks of the later revision, and of src/patchutils.go.\<close>

definition mergeOverlappingHunks ::
  "diffChunks \<Rightarrow> nat \<Rightarrow> Hunk list \<Rightarrow> Hunk list \<Rightarrow> (error + Hunk option) option"
where
  "mergeOverlappingHunks DiffChunks = mergeWith (bothOpen DiffChunks)"

definition mergeOverlappingHunks_v1 ::
  "nat \<Rightarrow> Hunk list \<Rightarrow> Hunk list \<Rightarrow> (error + Hunk option) option"
where
  "mergeOverlappingHunks_v1 = mergeWith bothOpen_v1"

section \<open>The overlap detector and the inter-file-diff driver\<close>

text \<open>
  The source walks the two hunk arrays with the indices \<open>i\<close> and \<open>j\<close>, which
  findOverlappingHunkSet moves through pointers. Here an index is the list of the hunks
  from that index on, so \<open>Hunks[i]\<close> is the head of the list and \<open>i++\<close> its tail;
  \<open>Hunks[*i-1]\<close> and \<open>Hunks[*j-1]\<close>, the hunks consumed last, are passed along.
\<close>

fun overlapLoop ::
  "Hunk \<Rightarrow> Hunk \<Rightarrow> Hunk list \<Rightarrow> Hunk list \<Rightarrow> Hunk list \<times> Hunk list \<Rightarrow>
   (Hunk list \<times> Hunk list) \<times> (Hunk list \<times> Hunk list)"
where
  "overlapLoop lastOld lastNew [] [] (oldHunks, newHunks) = ((oldHunks, newHunks), ([], []))"
| "overlapLoop lastOld lastNew (h # hs) [] (oldHunks, newHunks) =
     (if OrigStartLine lastNew <=s OrigStartLine h \<and>
         OrigStartLine h <s OrigStartLine lastNew + OrigLines lastNew
      then overlapLoop h lastNew hs [] (oldHunks @ [h], newHunks)
      else ((oldHunks, newHunks), (h # hs, [])))"
| "overlapLoop lastOld lastNew [] (g # gs) (oldHunks, newHunks) =
     (if OrigStartLine lastOld <=s OrigStartLine g \<and>
         OrigStartLine g <s OrigStartLine lastOld + OrigLines lastOld
      then overlapLoop lastOld g [] gs (oldHunks, newHunks @ [g])
      else ((oldHunks, newHunks), ([], g # gs)))"
| "overlapLoop lastOld lastNew (h # hs) (g # gs) (oldHunks, newHunks) =
     (if OrigStartLine lastNew <=s OrigStartLine h \<and>
         OrigStartLine h <s OrigStartLine lastNew + OrigLines lastNew
      then overlapLoop h lastNew hs (g # gs) (oldHunks @ [h], newHunks)
      else if OrigStartLine lastOld <=s OrigStartLine g \<and>
         OrigStartLine g <s OrigStartLine lastOld + OrigLines lastOld
      then overlapLoop lastOld g (h # hs) gs (oldHunks, newHunks @ [g])
      else ((oldHunks, newHunks), (h # hs, g # gs)))"

text \<open>
  findOverlappingHunkSet is only called with a hunk at \<open>i\<close> and at \<open>j\<close>; on an empty list
  the index expression of the source panics.
\<close>

fun findOverlappingHunkSet ::
  "Hunk list \<Rightarrow> Hunk list \<Rightarrow> error + (Hunk list \<times> Hunk list) \<times> (Hunk list \<times> Hunk list)"
where
  "findOverlappingHunkSet (h # hs) (g # gs) = Inr (overlapLoop h g hs gs ([h], [g]))"
| "findOverlappingHunkSet _ _ = Inl Panic"

lemma overlapLoop_shorter:
  "overlapLoop lastOld lastNew hs gs acc = (sets, (hs', gs')) \<Longrightarrow>
   length hs' \<le> length hs \<and> length gs' \<le> length gs"
proof (induction lastOld lastNew hs gs acc rule: overlapLoop.induct)
  case (1 lastOld lastNew oldHunks newHunks)
  then show ?case by simp
next
  case (2 lastOld lastNew h hs oldHunks newHunks)
  then show ?case by (auto split: if_splits)
next
  case (3 lastOld lastNew g gs oldHunks newHunks)
  then show ?case by (auto split: if_splits)
next
  case (4 lastOld lastNew h hs g gs oldHunks newHunks)
  then show ?case by (auto split: if_splits)
qed

text \<open>
  The loop of interFileDiff over the hunks, with the inverter and the merger as parameters
  (they differ between the revisions). \<open>resultHunks\<close> is resultFileDiff.Hunks.
\<close>

function interHunks ::
  "(Hunk \<Rightarrow> Hunk) \<Rightarrow> (Hunk list \<Rightarrow> Hunk list \<Rightarrow> (error + Hunk option) option) \<Rightarrow>
   Hunk list \<Rightarrow> Hunk list \<Rightarrow> Hunk list \<Rightarrow> (error + Hunk list) option"
where
  "interHunks revert merge [] newRest resultHunks = Some (Inr (resultHunks @ newRest))"
| "interHunks revert merge (h # hs) [] resultHunks =
     Some (Inr (resultHunks @ map revert (h # hs)))"
| "interHunks revert merge (h # hs) (g # gs) resultHunks =
     (if OrigStartLine h + OrigLines h <s OrigStartLine g
      then interHunks revert merge hs (g # gs) (resultHunks @ [revert h])
      else if OrigStartLine g + OrigLines g <s OrigStartLine h
      then interHunks revert merge (h # hs) gs (resultHunks @ [g])
      else (case findOverlappingHunkSet (h # hs) (g # gs) of
              Inl e \<Rightarrow> Some (Inl e)
            | Inr ((oldHunks, newHunks), (hs', gs')) \<Rightarrow>
                (case merge oldHunks newHunks of
                   None \<Rightarrow> None
                 | Some (Inl e) \<Rightarrow> Some (Inl e)
                 | Some (Inr None) \<Rightarrow> interHunks revert merge hs' gs' resultHunks
                 | Some (Inr (Some mergedOverlappingHunk)) \<Rightarrow>
                     interHunks revert merge hs' gs' (resultHunks @ [mergedOverlappingHunk]))))"
  by pat_completeness auto
termination
  by (relation "measure (\<lambda>(revert, merge, hs, gs, r). length hs + length gs)")
     (auto dest: overlapLoop_shorter)

text \<open>
  interFileDiff of the later revision, and of src/patchutils.go. The merger is given
  \<open>fuel\<close> iterations for every chain; \<open>None\<close> is a merge that did not end within them.
\<close>

definition interFileDiff ::
  "diffChunks \<Rightarrow> nat \<Rightarrow> FileDiff \<Rightarrow> FileDiff \<Rightarrow> (error + FileDiff) option"
where
  "interFileDiff DiffChunks fuel oldFileDiff newFileDiff =
     (case interHunks revertedHunk (mergeOverlappingHunks DiffChunks fuel)
             (Hunks oldFileDiff) (Hunks newFileDiff) [] of
        None \<Rightarrow> None
      | Some (Inl e) \<Rightarrow> Some (Inl e)
      | Some (Inr hunks) \<Rightarrow>
          Some (Inr \<lparr> OrigName = NewName oldFileDiff, OrigTime = NewTime oldFileDiff,
                      NewName = NewName newFileDiff, NewTime = NewTime newFileDiff,
                      Extended = [], Hunks = hunks \<rparr>))"

definition interFileDiff_v1 :: "nat \<Rightarrow> FileDiff \<Rightarrow> FileDiff \<Rightarrow> (error + FileDiff) option" where
  "interFileDiff_v1 fuel oldFileDiff newFileDiff =
     (case interHunks revertedHunkBody (mergeOverlappingHunks_v1 fuel)
             (Hunks oldFileDiff) (Hunks newFileDiff) [] of
        None \<Rightarrow> None
      | Some (Inl e) \<Rightarrow> Some (Inl e)
      | Some (Inr hunks) \<Rightarrow>
          Some (Inr \<lparr> OrigName = NewName oldFileDiff, OrigTime = NewTime oldFileDiff,
                      NewName = NewName newFileDiff, NewTime = NewTime newFileDiff,
                      Extended = [], Hunks = hunks \<rparr>))"

section \<open>The chunks-to-FileDiff assembler\<close>

definition contextLines :: nat where
  "contextLines = 2"

definition emptyChunk :: "Chunk \<Rightarrow> bool" where
  "emptyChunk c = (Added c = [] \<and> Deleted c = [] \<and> Equal c = [])"

definition onlyEqual :: "Chunk \<Rightarrow> bool" where
  "onlyEqual c = (Added c = [] \<and> Deleted c = [])"

definition contextOf :: "string list \<Rightarrow> string list" where
  "contextOf lines = map (\<lambda>line. '' '' @ line) lines"

text \<open>
  The variables of convertChunksIntoFileDiff: the two line counters, the hunk that is
  open and its body, and fileDiff.Hunks.
\<close>

record convState =
  currentOldI :: int32
  currentNewI :: int32
  currentHunk :: Hunk
  currentHunkBody :: "string list"
  resultHunks :: "Hunk list"

text \<open>
  The first chunk when it has only equal lines: both counters pass it, and its last
  contextLines lines (or all of them) open the body; the start lines are set in the first
  branch only.
\<close>

definition leadingContext :: "Chunk \<Rightarrow> convState \<Rightarrow> convState" where
  "leadingContext c st =
     (let n = length (Equal c);
          oldI = currentOldI st + word_of_nat n;
          newI = currentNewI st + word_of_nat n
      in if contextLines < n
         then st\<lparr> currentOldI := oldI, currentNewI := newI,
                  currentHunkBody :=
                    currentHunkBody st @ contextOf (drop (n - contextLines) (Equal c)),
                  currentHunk := (currentHunk st)
                    \<lparr> OrigStartLine := oldI - word_of_nat contextLines,
                      NewStartLine := newI - word_of_nat contextLines \<rparr> \<rparr>
         else st\<lparr> currentOldI := oldI, currentNewI := newI,
                  currentHunkBody := currentHunkBody st @ contextOf (Equal c) \<rparr>)"

text \<open>The equal lines of the last chunk that are kept for the end of the last hunk.\<close>

definition trailingContext :: "Chunk \<Rightarrow> string list" where
  "trailingContext c =
     (if contextLines < length (Equal c) then contextOf (take contextLines (Equal c))
      else contextOf (Equal c))"

text \<open>
  One chunk in the main loop: the added lines, the deleted lines, then the equal lines,
  which either close the open hunk and open the next one, or go into the open hunk.
\<close>

definition convChunk :: "Chunk \<Rightarrow> convState \<Rightarrow> convState" where
  "convChunk c st0 =
     (let st = st0\<lparr> currentHunkBody :=
                       currentHunkBody st0 @ map (\<lambda>line. ''+'' @ line) (Added c) @
                       map (\<lambda>line. ''-'' @ line) (Deleted c),
                     currentNewI := currentNewI st0 + word_of_nat (length (Added c)),
                     currentOldI := currentOldI st0 + word_of_nat (length (Deleted c)) \<rparr>;
          n = length (Equal c)
      in if 2 * contextLines + 1 < n
         then
           let closed =
                 (if currentHunkBody st \<noteq> []
                  then resultHunks st @
                    [(currentHunk st)
                       \<lparr> OrigLines := currentOldI st + word_of_nat contextLines + 1
                                        - OrigStartLine (currentHunk st),
                         NewLines := currentNewI st + word_of_nat contextLines + 1
                                        - NewStartLine (currentHunk st),
                         Body := Join (currentHunkBody st @
                                   contextOf (take contextLines (Equal c))) [NL] @ [NL] \<rparr>]
                  else resultHunks st);
               oldI = currentOldI st + word_of_nat n;
               newI = currentNewI st + word_of_nat n
           in \<lparr> currentOldI = oldI, currentNewI = newI,
                currentHunk = zeroHunk
                  \<lparr> OrigStartLine := oldI - word_of_nat contextLines,
                    NewStartLine := newI - word_of_nat contextLines \<rparr>,
                currentHunkBody = contextOf (drop (n - contextLines - 1) (Equal c)),
                resultHunks = closed \<rparr>
         else st\<lparr> currentHunkBody := currentHunkBody st @ contextOf (Equal c),
                  currentOldI := currentOldI st + word_of_nat n,
                  currentNewI := currentNewI st + word_of_nat n \<rparr>)"

text \<open>The end: the kept lines, the line counts of the last hunk, and its body.\<close>

definition closeLast :: "string list \<Rightarrow> convState \<Rightarrow> Hunk list" where
  "closeLast lastLines st =
     (let oldI = currentOldI st + word_of_nat (length lastLines);
          newI = currentNewI st + word_of_nat (length lastLines)
      in resultHunks st @
         [(currentHunk st)
            \<lparr> OrigLines := oldI - OrigStartLine (currentHunk st),
              NewLines := newI - NewStartLine (currentHunk st),
              Body := Join (currentHunkBody st @ lastLines) [NL] @ [NL] \<rparr>])"

text \<open>
  convertChunksIntoFileDiff: the result is the file diff with the new hunks appended.
  Empty chunks at both ends are dropped first; one chunk of equal lines, or none at all,
  leaves the file diff as it is.
\<close>

definition convertChunksIntoFileDiff :: "Chunk list \<Rightarrow> FileDiff \<Rightarrow> FileDiff" where
  "convertChunksIntoFileDiff chunks0 fileDiff =
     (let chunks1 = rev (dropWhile emptyChunk (rev (dropWhile emptyChunk chunks0)));
          st0 = \<lparr> currentOldI = 1, currentNewI = 1,
                  currentHunk = zeroHunk\<lparr> OrigStartLine := 1, NewStartLine := 1 \<rparr>,
                  currentHunkBody = [], resultHunks = Hunks fileDiff \<rparr>
      in if (length chunks1 = 1 \<and> onlyEqual (hd chunks1)) \<or> chunks1 = [] then fileDiff
         else
           let st1 = (if onlyEqual (hd chunks1) then leadingContext (hd chunks1) st0 else st0);
               chunks2 = (if onlyEqual (hd chunks1) then tl chunks1 else chunks1);
               lastLines =
                 (if Equal (last chunks2) \<noteq> [] then trailingContext (last chunks2) else []);
               chunks3 =
                 (if Equal (last chunks2) \<noteq> []
                  then butlast chunks2 @ [(last chunks2)\<lparr> Equal := [] \<rparr>] else chunks2)
           in fileDiff\<lparr> Hunks := closeLast lastLines (foldl (\<lambda>st c. convChunk c st) st1 chunks3) \<rparr>)"

section \<open>Example inputs\<close>

text \<open>A hunk body as the parser of go-diff builds it: every line is followed by "\n".\<close>

definition bodyOf :: "string list \<Rightarrow> string" where
  "bodyOf lines = Join lines [NL] @ [NL]"

definition hunkOf :: "int32 \<Rightarrow> int32 \<Rightarrow> int32 \<Rightarrow> int32 \<Rightarrow> string list \<Rightarrow> Hunk" where
  "hunkOf origStart origLines newStart newLines lines =
     \<lparr> OrigStartLine = origStart, OrigLines = origLines, OrigNoNewlineAt = 0,
       NewStartLine = newStart, NewLines = newLines, Section = [], StartPosition = 0,
       Body = bodyOf lines \<rparr>"

definition fileDiffOf :: "string \<Rightarrow> Hunk list \<Rightarrow> FileDiff" where
  "fileDiffOf name hunks =
     \<lparr> OrigName = name, OrigTime = None, NewName = name, NewTime = None,
       Extended = [], Hunks = hunks \<rparr>"

text \<open>The two counts of the hunk-body invariant, and the context lines a body starts with.\<close>

definition origCount :: "Hunk \<Rightarrow> nat" where
  "origCount h =
     length (filter (\<lambda>line. HasPrefix line '' '' \<or> HasPrefix line ''-'') (hunkLines h))"

definition newCount :: "Hunk \<Rightarrow> nat" where
  "newCount h =
     length (filter (\<lambda>line. HasPrefix line '' '' \<or> HasPrefix line ''+'') (hunkLines h))"

definition leadingContextCount :: "Hunk \<Rightarrow> nat" where
  "leadingContextCount h = length (takeWhile (\<lambda>line. HasPrefix line '' '') (hunkLines h))"

text \<open>The lines of a hunk that the applier compares with the source: all but the added.\<close>

definition anchorCount :: "Hunk \<Rightarrow> nat" where
  "anchorCount h = length (filter (\<lambda>line. \<not> HasPrefix line ''+'') (hunkLines h))"

text \<open>Two overlapping hunks with section labels, positions and no-newline marks.\<close>

definition labelledOld :: Hunk where
  "labelledOld = (hunkOf 1 2 1 1 ['' a'', ''-b''])
     \<lparr> Section := ''func f()'', StartPosition := 17, OrigNoNewlineAt := 5 \<rparr>"

definition labelledNew :: Hunk where
  "labelledNew = (hunkOf 1 2 1 1 [''-a'', '' b''])
     \<lparr> Section := ''func g()'', StartPosition := 29, OrigNoNewlineAt := 5 \<rparr>"

definition labelledMerged :: Hunk where
  "labelledMerged = (hunkOf 1 1 1 1 [''-a'', ''+b''])\<lparr> StartPosition := 17 \<rparr>"

text \<open>
  The source of seven lines and the two patches of the interdiff example: the old patch
  deletes line 2, the new patch deletes line 1 and replaces line 5.
\<close>

definition sevenLines :: string where
  "sevenLines = Join [''a'', ''b'', ''c'', ''d'', ''e'', ''f'', ''g''] [NL]"

definition exOldDiff :: FileDiff where
  "exOldDiff = fileDiffOf ''f'' [hunkOf 1 2 1 1 ['' a'', ''-b'']]"

definition exNewDiff :: FileDiff where
  "exNewDiff =
     fileDiffOf ''f'' [hunkOf 1 2 1 1 [''-a'', '' b''], hunkOf 5 1 4 1 [''-e'', ''+E'']]"

definition exInterDiff :: FileDiff where
  "exInterDiff =
     fileDiffOf ''f'' [hunkOf 1 1 1 1 [''-a'', ''+b''], hunkOf 5 1 4 1 [''-e'', ''+E'']]"

text \<open>A patch of one hunk that replaces the only line "a" by "b".\<close>

definition exReplace :: FileDiff where
  "exReplace = fileDiffOf ''f'' [hunkOf 1 1 1 1 [''-a'', ''+b'']]"

text \<open>
  The chunks of the line-diff of a, e1, ..., e6 and e1, ..., e6, b: one line deleted, six
  equal lines, one line added.
\<close>

definition exChunks :: "Chunk list" where
  "exChunks =
     [\<lparr> Added = [], Deleted = [''a''],
        Equal = [''e1'', ''e2'', ''e3'', ''e4'', ''e5'', ''e6''] \<rparr>,
      \<lparr> Added = [''b''], Deleted = [], Equal = [] \<rparr>]"

definition exAssembled :: "Hunk list" where
  "exAssembled = Hunks (convertChunksIntoFileDiff exChunks (fileDiffOf ''f'' []))"

text \<open>An anchor line: a line with the prefix " " or "-".\<close>

definition anchor :: "string \<Rightarrow> bool" where
  "anchor line = (HasPrefix line '' '' \<or> HasPrefix line ''-'')"

text \<open>Two overlapping hunks whose second lines differ in what they say of line 2.\<close>

definition mismatchOld :: Hunk where
  "mismatchOld = hunkOf 1 2 1 2 ['' a'', '' b'']"

definition mismatchNew :: Hunk where
  "mismatchNew = hunkOf 1 2 1 1 ['' a'', ''-X'']"

text \<open>
  A line-diff for the examples, in place of the library's: the common prefix of the two
  sequences is equal, the other old lines are deleted and the other new lines added, one
  line in a chunk.
\<close>

fun commonPrefix :: "string list \<Rightarrow> string list \<Rightarrow> string list" where
  "commonPrefix (x # xs) (y # ys) = (if x = y then x # commonPrefix xs ys else [])"
| "commonPrefix _ _ = []"

definition prefixDiffChunks :: diffChunks where
  "prefixDiffChunks a b =
     (let p = commonPrefix a b
      in (if p = [] then [] else [\<lparr> Added = [], Deleted = [], Equal = p \<rparr>]) @
         map (\<lambda>line. \<lparr> Added = [], Deleted = [line], Equal = [] \<rparr>) (drop (length p) a) @
         map (\<lambda>line. \<lparr> Added = [line], Deleted = [], Equal = [] \<rparr>) (drop (length p) b))"



definition insertOldContext :: Hunk where
  "insertOldContext = hunkOf 4 4 4 6 ['' L4'', '' L5'', ''+A'', ''+B'', '' L6'', '' L7'']"

definition insertNewContext :: Hunk where
  "insertNewContext = hunkOf 4 4 4 6 ['' L4'', '' L5'', ''+A'', ''+C'', '' L6'', '' L7'']"


section \<open>InterDiff\<close>

text \<open>
  InterDiff reads the two patches with the parser of go-diff and prints with its printer;
  both are outside this repository. The model starts from the parsed file diffs, and its
  result is the list of the pieces that are printed: a line "Only in dir: base" for a
  path, or a file diff handed to diff.PrintFileDiff.
\<close>

datatype piece = OnlyIn string | Printed FileDiff





text \<open>
  InterDiff of src/patchutils.go: the arrays are walked as they are, a file diff with no
  partner gives a line "Only in", and the pieces are printed as they come.
\<close>

fun interFiles_v1 ::
  "nat \<Rightarrow> FileDiff list \<Rightarrow> FileDiff list \<Rightarrow> piece list \<Rightarrow> (error + piece list) option"
where
  "interFiles_v1 fuel [] newRest result = Some (Inr (result @ map (\<lambda>d. OnlyIn (NewName d)) newRest))"
| "interFiles_v1 fuel (d # ds) [] result =
     Some (Inr (result @ map (\<lambda>d. OnlyIn (NewName d)) (d # ds)))"
| "interFiles_v1 fuel (d # ds) (e # es) result =
     (if OrigName d = OrigName e
      then (case interFileDiff_v1 fuel d e of
              None \<Rightarrow> None
            | Some (Inl err) \<Rightarrow> Some (Inl err)
            | Some (Inr fd) \<Rightarrow> interFiles_v1 fuel ds es (result @ [Printed fd]))
      else if OrigName d < OrigName e
        then interFiles_v1 fuel ds (e # es) (result @ [OnlyIn (NewName d)])
      else interFiles_v1 fuel (d # ds) es (result @ [OnlyIn (NewName e)]))"

definition InterDiff_v1 ::
  "nat \<Rightarrow> FileDiff list \<Rightarrow> FileDiff list \<Rightarrow> (error + piece list) option"
where
  "InterDiff_v1 fuel oldFileDiffs newFileDiffs =
     (if oldFileDiffs = [] \<or> newFileDiffs = [] then Some (Inl ErrEmptyDiffFile)
      else interFiles_v1 fuel oldFileDiffs newFileDiffs [])"

section \<open>Well-formed patches\<close>








text \<open>A patch of two hunks, with deleted and added lines, for the interdiff with itself.\<close>

definition exSame :: FileDiff where
  "exSame =
     fileDiffOf ''f'' [hunkOf 1 2 1 2 ['' a'', ''-b'', ''+c''], hunkOf 10 1 10 2 ['' x'', ''+y'']]"

text \<open>
  Two hunks for the loop that does not end: the old hunk says that it has five lines of
  the original and has two, the new hunk starts at line 4.
\<close>

definition shortOld :: Hunk where
  "shortOld = hunkOf 1 5 1 5 ['' a'', '' b'']"

definition lateNew :: Hunk where
  "lateNew = hunkOf 4 1 4 1 ['' d'']"

text \<open>
  A chain that starts with the old hunk: the old patch replaces line 2 by X, Y, the new
  patch deletes line 4.
\<close>

definition chainOld :: Hunk where
  "chainOld = hunkOf 1 4 1 5 ['' L1'', ''-L2'', ''+X'', ''+Y'', '' L3'', '' L4'']"

definition chainNew :: Hunk where
  "chainNew = hunkOf 3 3 3 2 ['' L3'', ''-L4'', '' L5'']"

section \<open>Splitting and joining lines\<close>

lemma Split_not_Nil: "Split s sep \<noteq> []"
  by (induction s) (auto split: list.splits)

lemma Split_no_sep: "l \<in> set (Split s sep) \<Longrightarrow> sep \<notin> set l"
proof (induction s arbitrary: l)
  case Nil
  then show ?case by simp
next
  case (Cons c cs)
  show ?case
  proof (cases "c = sep")
    case True
    with Cons show ?thesis by auto
  next
    case False
    obtain x xs where sp: "Split cs sep = x # xs"
      using Split_not_Nil [of cs sep] by (cases "Split cs sep") auto
    with Cons False show ?thesis by auto
  qed
qed

lemma Split_append_no_sep:
  "sep \<notin> set l \<Longrightarrow> Split (l @ sep # s) sep = l # Split s sep"
  by (induction l) auto

lemma Split_only_no_sep: "sep \<notin> set l \<Longrightarrow> Split l sep = [l]"
  by (induction l) auto

lemma Split_Join:
  "ls \<noteq> [] \<Longrightarrow> \<forall>l \<in> set ls. sep \<notin> set l \<Longrightarrow> Split (Join ls [sep]) sep = ls"
proof (induction ls "[sep]" rule: Join.induct)
  case 1
  then show ?case by simp
next
  case (2 l)
  then show ?case by (simp add: Split_only_no_sep)
next
  case (3 l l' ls)
  then show ?case by (simp add: Split_append_no_sep)
qed

lemma TrimSuffix_snoc: "TrimSuffix (s @ [c]) [c] = s"
  by (simp add: TrimSuffix_def HasSuffix_def)

lemma revertedLine_no_NL: "NL \<notin> set l \<Longrightarrow> NL \<notin> set (revertedLine l)"
  by (cases l) (auto simp: revertedLine_def HasPrefix_def)

lemma Split_snoc_sep: "Split (b @ [sep]) sep = Split b sep @ [[]]"
proof (induction b)
  case Nil
  then show ?case by simp
next
  case (Cons c cs)
  obtain x xs where "Split cs sep = x # xs"
    using Split_not_Nil [of cs sep] by (cases "Split cs sep") auto
  with Cons show ?case by auto
qed

lemma hunkLines_reverted:
  "Split (TrimSuffix (Join (map revertedLine (Split b NL)) [NL] @ [NL]) [NL]) NL
     = map revertedLine (Split b NL)"
proof -
  have ne: "map revertedLine (Split b NL) \<noteq> []"
    by (simp add: Split_not_Nil)
  have no: "\<forall>l \<in> set (map revertedLine (Split b NL)). NL \<notin> set l"
    using Split_no_sep [of _ b NL] revertedLine_no_NL by auto
  show ?thesis
    unfolding TrimSuffix_snoc by (rule Split_Join [OF ne no])
qed



lemma revertedLine_other:
  "\<not> HasPrefix l ''+'' \<Longrightarrow> \<not> HasPrefix l ''-'' \<Longrightarrow> revertedLine l = l"
  by (simp add: revertedLine_def)

section \<open>The hunk inverter: lines and coordinates\<close>



text \<open>
  The inverter of src/patchutils.go, revertedHunkBody, maps the lines in the same way and
  copies the four numbers as they are.
\<close>

lemma revertedHunkBody_keeps_coordinates:
  "OrigStartLine (revertedHunkBody h) = OrigStartLine h \<and>
   OrigLines (revertedHunkBody h) = OrigLines h \<and>
   NewStartLine (revertedHunkBody h) = NewStartLine h \<and>
   NewLines (revertedHunkBody h) = NewLines h \<and>
   Body (revertedHunkBody h) = Body (revertedHunk h)"
  by (simp add: revertedHunkBody_def revertedHunk_def)

text \<open>
  Both inverters split the body without trimming its final "\n" first, so the body they
  return reads, line by line, as the reverted lines and one empty line more.
\<close>

lemma revertedHunk_extra_line:
  assumes "Body h = b @ [NL]"
  shows "hunkLines (revertedHunk h) = map revertedLine (hunkLines h) @ [[]]"
proof -
  have "hunkLines (revertedHunk h) = map revertedLine (Split (Body h) NL)"
    by (simp add: revertedHunk_def hunkLines_def hunkLines_reverted)
  also have "\<dots> = map revertedLine (Split b NL) @ [revertedLine []]"
    by (simp add: assms Split_snoc_sep)
  also have "\<dots> = map revertedLine (hunkLines h) @ [[]]"
    by (simp add: hunkLines_def assms TrimSuffix_snoc revertedLine_def HasPrefix_def)
  finally show ?thesis .
qed

section \<open>What the merged output keeps of its inputs\<close>

lemma mergeWith_fields:
  assumes "mergeWith both fuel oldHunks newHunks = Some (Inr (Some h))"
  shows "Section h = [] \<and> OrigNoNewlineAt h = 0 \<and>
         StartPosition h = StartPosition (hd oldHunks)"
  using assms
  by (auto simp: mergeWith_def configureResultHunk_def Let_def
      split: sum.splits option.splits if_splits prod.splits)

text \<open>
  Claim C10. Every hunk that mergeOverlappingHunks returns (in either revision) has an
  empty Section, OrigNoNewlineAt 0 and the StartPosition of the first old hunk of the
  chain; and every FileDiff that interFileDiff returns has an empty Extended list.
\<close>

theorem merged_hunk_discards_labels:
  "(mergeOverlappingHunks DiffChunks fuel oldHunks newHunks = Some (Inr (Some h)) \<longrightarrow>
      Section h = [] \<and> OrigNoNewlineAt h = 0 \<and>
      StartPosition h = StartPosition (hd oldHunks)) \<and>
   (mergeOverlappingHunks_v1 fuel oldHunks newHunks = Some (Inr (Some h')) \<longrightarrow>
      Section h' = [] \<and> OrigNoNewlineAt h' = 0 \<and>
      StartPosition h' = StartPosition (hd oldHunks)) \<and>
   (interFileDiff DiffChunks fuel oldFileDiff newFileDiff = Some (Inr fd) \<longrightarrow>
      Extended fd = []) \<and>
   (interFileDiff_v1 fuel oldFileDiff newFileDiff = Some (Inr fd') \<longrightarrow> Extended fd' = [])"
proof -
  have a: "interFileDiff DiffChunks fuel oldFileDiff newFileDiff = Some (Inr fd) \<longrightarrow>
      Extended fd = []"
    by (auto simp: interFileDiff_def split: option.splits sum.splits)
  have b: "interFileDiff_v1 fuel oldFileDiff newFileDiff = Some (Inr fd') \<longrightarrow>
      Extended fd' = []"
    by (auto simp: interFileDiff_v1_def split: option.splits sum.splits)
  show ?thesis
    using a b mergeWith_fields [of "bothOpen DiffChunks" fuel oldHunks newHunks h]
      mergeWith_fields [of bothOpen_v1 fuel oldHunks newHunks h']
    by (simp add: mergeOverlappingHunks_def mergeOverlappingHunks_v1_def)
qed

theorem merged_hunk_discards_labels_witness:
  "mergeOverlappingHunks (\<lambda>old new. []) 2 [labelledOld] [labelledNew]
     = Some (Inr (Some labelledMerged)) \<and>
   Section labelledMerged = [] \<and> OrigNoNewlineAt labelledMerged = 0 \<and>
   StartPosition labelledMerged = StartPosition (hd [labelledOld]) \<and>
   mergeOverlappingHunks_v1 2 [labelledOld] [labelledNew] = Some (Inr (Some labelledMerged)) \<and>
   interFileDiff (\<lambda>old new. []) 2
       ((fileDiffOf ''f'' [labelledOld])\<lparr> Extended := [''index 1..2''] \<rparr>)
       ((fileDiffOf ''f'' [labelledNew])\<lparr> Extended := [''index 1..3''] \<rparr>)
     = Some (Inr (fileDiffOf ''f'' [labelledMerged])) \<and>
   interFileDiff_v1 2
       ((fileDiffOf ''f'' [labelledOld])\<lparr> Extended := [''index 1..2''] \<rparr>)
       ((fileDiffOf ''f'' [labelledNew])\<lparr> Extended := [''index 1..3''] \<rparr>)
     = Some (Inr (fileDiffOf ''f'' [labelledMerged])) \<and>
   Extended (fileDiffOf ''f'' [labelledMerged]) = []"
proof -
  have m: "mergeOverlappingHunks (\<lambda>old new. []) 2 [labelledOld] [labelledNew]
     = Some (Inr (Some labelledMerged))"
    by code_simp
  have m1: "mergeOverlappingHunks_v1 2 [labelledOld] [labelledNew]
     = Some (Inr (Some labelledMerged))"
    by code_simp
  have f: "interFileDiff (\<lambda>old new. []) 2
       ((fileDiffOf ''f'' [labelledOld])\<lparr> Extended := [''index 1..2''] \<rparr>)
       ((fileDiffOf ''f'' [labelledNew])\<lparr> Extended := [''index 1..3''] \<rparr>)
     = Some (Inr (fileDiffOf ''f'' [labelledMerged]))"
    by code_simp
  have f1: "interFileDiff_v1 2
       ((fileDiffOf ''f'' [labelledOld])\<lparr> Extended := [''index 1..2''] \<rparr>)
       ((fileDiffOf ''f'' [labelledNew])\<lparr> Extended := [''index 1..3''] \<rparr>)
     = Some (Inr (fileDiffOf ''f'' [labelledMerged]))"
    by code_simp
  show ?thesis
    using m m1 f f1
      merged_hunk_discards_labels [of "\<lambda>old new. []" 2 "[labelledOld]" "[labelledNew]"
        labelledMerged labelledMerged
        "(fileDiffOf ''f'' [labelledOld])\<lparr> Extended := [''index 1..2''] \<rparr>"
        "(fileDiffOf ''f'' [labelledNew])\<lparr> Extended := [''index 1..3''] \<rparr>"
        "fileDiffOf ''f'' [labelledMerged]" "fileDiffOf ''f'' [labelledMerged]"]
    by simp
qed

section \<open>Applying a reverted patch\<close>

text \<open>
  Claim C2 says that applying a patch and then its reverted patch gives the source back.
  The patch below replaces the line "a" by "b" and applies cleanly. Its reverted hunk has
  the empty line that the inverter adds after the last line, and the applier panics on it
  at \<open>line[1:]\<close>, in the later revision and (on a source of two lines, where the guard of
  the earlier revision does not fire first) in src/patchutils.go.
\<close>

theorem revert_round_trip_panics:
  "applyDiff ''a'' (Some exReplace) = Inr ''b'' \<and>
   hunkLines (hd (Hunks (revertHunks exReplace))) = [''+a'', ''-b'', []] \<and>
   applyDiff ''b'' (Some (revertHunks exReplace)) = Inl Panic \<and>
   applyDiff_v1 (Join [''a'', ''c''] [NL]) exReplace = Inr (Join [''b'', ''c''] [NL]) \<and>
   applyDiff_v1 (Join [''b'', ''c''] [NL])
       (exReplace\<lparr> Hunks := map revertedHunkBody (Hunks exReplace) \<rparr>)
     = Inl Panic"
  by code_simp

section \<open>Applying the result of the interdiff\<close>

text \<open>
  Claim C1 says that the interdiff of two patches, applied to the source patched with the
  old one, gives the source patched with the new one. Both patches below apply cleanly to
  the source of seven lines. Their first hunks overlap and are merged; the second hunk of
  the new patch is copied with its start line 5, which is its place in the source and not
  in the source patched with the old patch (there the line "e" is line 4). Applying the
  result fails, in both revisions.
\<close>

theorem interdiff_result_does_not_apply:
  "applyDiff sevenLines (Some exOldDiff)
     = Inr (Join [''a'', ''c'', ''d'', ''e'', ''f'', ''g''] [NL]) \<and>
   applyDiff sevenLines (Some exNewDiff)
     = Inr (Join [''b'', ''c'', ''d'', ''E'', ''f'', ''g''] [NL]) \<and>
   interFileDiff DiffChunks 2 exOldDiff exNewDiff = Some (Inr exInterDiff) \<and>
   applyDiff (Join [''a'', ''c'', ''d'', ''e'', ''f'', ''g''] [NL]) (Some exInterDiff)
     = Inl ErrContentMismatch \<and>
   applyDiff_v1 sevenLines exOldDiff
     = Inr (Join [''a'', ''c'', ''d'', ''e'', ''f'', ''g''] [NL]) \<and>
   applyDiff_v1 sevenLines exNewDiff
     = Inr (Join [''b'', ''c'', ''d'', ''E'', ''f'', ''g''] [NL]) \<and>
   interFileDiff_v1 2 exOldDiff exNewDiff = Some (Inr exInterDiff) \<and>
   applyDiff_v1 (Join [''a'', ''c'', ''d'', ''e'', ''f'', ''g''] [NL]) exInterDiff
     = Inl ErrLinesNotSame"
  by code_simp

section \<open>The hunks of the assembler\<close>

text \<open>
  Claim C6 says that a hunk of the assembler starts with at most two context lines. The
  hunk that is opened after a run of more than five equal lines starts with the last
  three of them.
\<close>

theorem assembler_third_context_line:
  "length exAssembled = 2 \<and>
   hunkLines (exAssembled ! 1) = ['' e4'', '' e5'', '' e6'', ''+b''] \<and>
   leadingContextCount (exAssembled ! 1) = 3 \<and> contextLines = 2"
  by code_simp

text \<open>
  Claim C9 says that the line counts of a hunk are the counts of its body lines. On the
  same chunks the first hunk counts one line more than its body has, on both sides, and
  the second hunk one line less; the second hunk also starts at line 6 with the body of
  line 5.
\<close>

theorem assembler_line_counts_off_by_one:
  "hunkLines (exAssembled ! 0) = [''-a'', '' e1'', '' e2''] \<and>
   OrigLines (exAssembled ! 0) = 4 \<and> origCount (exAssembled ! 0) = 3 \<and>
   NewLines (exAssembled ! 0) = 3 \<and> newCount (exAssembled ! 0) = 2 \<and>
   OrigStartLine (exAssembled ! 1) = 6 \<and>
   OrigLines (exAssembled ! 1) = 2 \<and> origCount (exAssembled ! 1) = 3 \<and>
   NewLines (exAssembled ! 1) = 3 \<and> newCount (exAssembled ! 1) = 4"
  by code_simp

text \<open>
  The hunks that the merger returns in the examples of this file have the line counts of
  their bodies.
\<close>

lemma merger_examples_keep_counts:
  "mergeOverlappingHunks prefixDiffChunks 7 [chainOld] [chainNew]
     = Some (Inr (Some (hunkOf 1 6 1 4
         ['' L1'', ''+L2'', ''-X'', ''-Y'', '' L3'', ''-L4'', '' L5'']))) \<and>
   origCount (hunkOf 1 6 1 4 ['' L1'', ''+L2'', ''-X'', ''-Y'', '' L3'', ''-L4'', '' L5'']) = 6 \<and>
   newCount (hunkOf 1 6 1 4 ['' L1'', ''+L2'', ''-X'', ''-Y'', '' L3'', ''-L4'', '' L5'']) = 4 \<and>
   origCount (hunkOf 4 6 4 6 ['' L4'', '' L5'', '' A'', ''-B'', ''+C'', '' L6'', '' L7'']) = 6 \<and>
   newCount (hunkOf 4 6 4 6 ['' L4'', '' L5'', '' A'', ''-B'', ''+C'', '' L6'', '' L7'']) = 6 \<and>
   origCount labelledMerged = 1 \<and> newCount labelledMerged = 1"
  by code_simp

section \<open>A hunk past the end of the source\<close>

text \<open>
  Claim C8 says that a hunk that runs past the last line of the source makes the applier
  return an error. A hunk that starts at line 3 of a source of one line makes the slice
  of the untouched lines panic, in both revisions. A hunk that starts inside the source and
  runs past its end meets the guard of src/patchutils.go, whose error is not the one of a
  line that differs; the later revision has no guard and panics at the index.
\<close>

theorem applier_panics_past_end:
  "applyDiff_v1 ''a'' (fileDiffOf ''f'' [hunkOf 3 1 3 1 ['' x'']]) = Inl Panic \<and>
   applyDiff ''a'' (Some (fileDiffOf ''f'' [hunkOf 3 1 3 1 ['' x'']])) = Inl Panic \<and>
   applyDiff_v1 ''a'' (fileDiffOf ''f'' [hunkOf 1 2 1 2 ['' a'', '' b'']])
     = Inl ErrOutOfSourceContent \<and>
   applyDiff ''a'' (Some (fileDiffOf ''f'' [hunkOf 1 2 1 2 ['' a'', '' b'']])) = Inl Panic"
  by code_simp

section \<open>The merger: two anchor lines that differ\<close>

lemma mergeLoop_after_steps:
  "mergeSteps both oldHunks newHunks k st0 = Some st \<Longrightarrow>
   mergeLoop both oldHunks newHunks (k + n) st0 = mergeLoop both oldHunks newHunks n st"
proof (induction k arbitrary: st0)
  case 0
  then show ?case by simp
next
  case (Suc k)
  then show ?case by (auto split: if_splits sum.splits)
qed

lemma anchor_not_added: "anchor line \<Longrightarrow> \<not> HasPrefix line ''+'' \<and> line \<noteq> []"
  by (cases line) (auto simp: anchor_def HasPrefix_def)

lemma bothOpen_mismatch:
  assumes "indexExpr (oldHunkBody st) (lineI st) = Inr oldLine"
    and "indexExpr (newHunkBody st) (lineJ st) = Inr newLine"
    and "anchor oldLine" and "anchor newLine" and "tl oldLine \<noteq> tl newLine"
  shows "bothOpen DiffChunks st = Inl ErrContentMismatch"
  using assms anchor_not_added [of oldLine] anchor_not_added [of newLine]
  by (simp add: bothOpen_def)

lemma mergeStep_mismatch:
  assumes "st = enterNew newHunks (enterOld oldHunks st0)"
    and "0 \<le> lineI st" and "0 \<le> lineJ st"
    and "indexExpr (oldHunkBody st) (lineI st) = Inr oldLine"
    and "indexExpr (newHunkBody st) (lineJ st) = Inr newLine"
    and "anchor oldLine" and "anchor newLine" and "tl oldLine \<noteq> tl newLine"
  shows "mergeStep (bothOpen DiffChunks) oldHunks newHunks st0 = Inl ErrContentMismatch"
proof -
  have "bothOpen DiffChunks st = Inl ErrContentMismatch"
    using assms(4-8) by (rule bothOpen_mismatch)
  then show ?thesis
    using assms(1-3) by (simp add: mergeStep_def Let_def)
qed

text \<open>
  Claim C4. In the merger of the later revision: when, after some iterations of the loop,
  an old and a new hunk are both open and both current lines are anchor lines (prefix " "
  or "-") whose texts after the prefix differ, mergeOverlappingHunks returns the error
  ErrContentMismatch and no hunk, whatever fuel is left.
\<close>

theorem anchor_mismatch_fails:
  assumes "configureResultHunk oldHunks newHunks = Inr (resultHunk, org)"
    and "mergeSteps (bothOpen DiffChunks) oldHunks newHunks k (initialState org) = Some st0"
    and "hunksLeft oldHunks newHunks st0"
    and "st = enterNew newHunks (enterOld oldHunks st0)"
    and "0 \<le> lineI st" and "0 \<le> lineJ st"
    and "indexExpr (oldHunkBody st) (lineI st) = Inr oldLine"
    and "indexExpr (newHunkBody st) (lineJ st) = Inr newLine"
    and "anchor oldLine" and "anchor newLine" and "tl oldLine \<noteq> tl newLine"
  shows "mergeOverlappingHunks DiffChunks (k + Suc n) oldHunks newHunks
           = Some (Inl ErrContentMismatch)"
proof -
  have step: "mergeStep (bothOpen DiffChunks) oldHunks newHunks st0 = Inl ErrContentMismatch"
    using assms(4-11) by (rule mergeStep_mismatch)
  have "mergeLoop (bothOpen DiffChunks) oldHunks newHunks (k + Suc n) (initialState org)
        = mergeLoop (bothOpen DiffChunks) oldHunks newHunks (Suc n) st0"
    using assms(2) by (rule mergeLoop_after_steps)
  also have "\<dots> = Some (Inl ErrContentMismatch)"
    using assms(3) step by simp
  finally show ?thesis
    using assms(1) by (simp add: mergeOverlappingHunks_def mergeWith_def)
qed

text \<open>
  The witness: both hunks keep line 1; the old hunk keeps line 2 as "b", the new hunk
  deletes it as "X". After one iteration both cursors are at the second lines.
\<close>

theorem anchor_mismatch_fails_witness:
  "mergeOverlappingHunks (\<lambda>old new. []) (1 + Suc 0) [mismatchOld] [mismatchNew]
     = Some (Inl ErrContentMismatch) \<and>
   anchor '' b'' \<and> anchor ''-X'' \<and> tl '' b'' \<noteq> tl ''-X''"
proof -
  define st0 where "st0 =
    \<lparr> currentOrgI = 2 :: int32, currentOldHunkI = 0, currentNewHunkJ = 0, lineI = 1,
      lineJ = 1, newBody = ['' a''], oldHunkBody = ['' a'', '' b''],
      newHunkBody = ['' a'', ''-X''] \<rparr>"
  define rh where "rh = (hunkOf 1 2 1 1 [])\<lparr> Body := [CHR 0x00] \<rparr>"
  have c: "configureResultHunk [mismatchOld] [mismatchNew] = Inr (rh, 1)"
    unfolding rh_def by code_simp
  have s: "mergeSteps (bothOpen (\<lambda>old new. [])) [mismatchOld] [mismatchNew] 1
             (initialState 1) = Some st0"
    unfolding st0_def by code_simp
  have l: "hunksLeft [mismatchOld] [mismatchNew] st0"
    unfolding st0_def by code_simp
  have e: "st0 = enterNew [mismatchNew] (enterOld [mismatchOld] st0)"
    unfolding st0_def by code_simp
  have i: "0 \<le> lineI st0" "0 \<le> lineJ st0"
    by (simp_all add: st0_def)
  have o: "indexExpr (oldHunkBody st0) (lineI st0) = Inr '' b''"
    unfolding st0_def by code_simp
  have n: "indexExpr (newHunkBody st0) (lineJ st0) = Inr ''-X''"
    unfolding st0_def by code_simp
  have a: "anchor '' b''" "anchor ''-X''" "tl '' b'' \<noteq> tl ''-X''"
    by (simp_all add: anchor_def HasPrefix_def)
  show ?thesis
    using anchor_mismatch_fails [OF c s l e i o n a, of 0] a by simp
qed

text \<open>
  The error of the merger is the result of the driver, which appends no hunk for the
  chain.
\<close>

lemma interFileDiff_mismatch_example:
  "interFileDiff DiffChunks 2 (fileDiffOf ''f'' [mismatchOld]) (fileDiffOf ''f'' [mismatchNew])
     = Some (Inl ErrContentMismatch)"
  by code_simp

text \<open>
  The merger of src/patchutils.go does not compare the two lines: on the same hunks it
  returns a hunk that deletes "X".
\<close>

lemma mismatch_not_checked_v1:
  "mergeOverlappingHunks_v1 2 [mismatchOld] [mismatchNew]
     = Some (Inr (Some (hunkOf 1 2 1 1 ['' a'', ''-X''])))"
  by code_simp

section \<open>The merger: added lines on both sides\<close>







text \<open>
  With two context lines before and after the inserted lines the merged body is the
  context, then " A", "-B", "+C", then the context. The merger of src/patchutils.go does
  not diff the runs: it reverts every added line of the old hunk and adds every added
  line of the new one.
\<close>

lemma insert_with_context_example:
  "mergeOverlappingHunks prefixDiffChunks 5 [insertOldContext] [insertNewContext]
     = Some (Inr (Some (hunkOf 4 6 4 6
         ['' L4'', '' L5'', '' A'', ''-B'', ''+C'', '' L6'', '' L7'']))) \<and>
   mergeOverlappingHunks_v1 8 [insertOldContext] [insertNewContext]
     = Some (Inr (Some (hunkOf 4 6 4 6
         ['' L4'', '' L5'', ''-A'', ''-B'', ''+A'', ''+C'', '' L6'', '' L7''])))"
  by code_simp

section \<open>The interdiff of a patch with itself\<close>






















text \<open>
  InterDiff of src/patchutils.go has no line-diff of the added lines: on the same patch it
  reverts every added line of the old side and adds it again from the new side.
\<close>

lemma same_patch_changes_v1:
  "InterDiff_v1 4 [exSame] [exSame] =
     Some (Inr [Printed (fileDiffOf ''f''
       [hunkOf 1 2 1 2 ['' a'', ''-c'', ''+c''], hunkOf 10 2 10 2 ['' x'', ''-y'', ''+y'']])])"
  by code_simp

section \<open>More on the patch applier\<close>

lemma Join_Split: "Join (Split s sep) [sep] = s"
proof (induction s)
  case Nil
  then show ?case by simp
next
  case (Cons c cs)
  obtain x xs where sp: "Split cs sep = x # xs"
    using Split_not_Nil [of cs sep] by (cases "Split cs sep") auto
  show ?case
  proof (cases "c = sep")
    case True
    with Cons sp show ?thesis by simp
  next
    case False
    with Cons sp show ?thesis by (cases xs) simp_all
  qed
qed

lemma sliceExpr_all: "sliceExpr xs 0 (int (length xs)) = Inr xs"
  by (simp add: sliceExpr_def)

text \<open>
  The nil patch and a patch without hunks leave the source as it is: splitting at "\\n"
  and joining again gives the same string.
\<close>

theorem empty_patch_is_identity:
  "applyDiff source None = Inr source \<and>
   (Hunks d = [] \<longrightarrow> applyDiff source (Some d) = Inr source \<and> applyDiff_v1 source d = Inr source)"
  by (simp add: applyDiff_def applyDiff_v1_def applyTail_def sliceExpr_all Join_Split)

lemma applyLines_empty_line:
  "\<exists>e. applyLines sourceBody (ls @ [[]]) st = Inl e"
proof (induction ls arbitrary: st)
  case Nil
  then show ?case by (cases st) (simp add: HasPrefix_def)
next
  case (Cons line ls)
  obtain cur out where st: "st = (cur, out)" by (cases st)
  show ?case
    using Cons [of "(cur, out @ [tl line])"] Cons [of "(cur + 1, out)"]
      Cons [of "(cur + 1, out @ [sourceBody ! nat (sint (cur - 1))])"]
    by (auto simp: st indexExpr_def split: list.splits sum.splits)
qed

lemma applyHunks_empty_line:
  assumes "\<And>ls st. \<exists>e. lines sourceBody (ls @ [[]]) st = Inl e"
  shows "h \<in> set hunks \<Longrightarrow> hunkLines h = ls @ [[]] \<Longrightarrow>
         \<exists>e. applyHunks lines sourceBody hunks st = Inl e"
proof (induction hunks arbitrary: st)
  case Nil
  then show ?case by simp
next
  case (Cons g hunks)
  obtain cur out where st: "st = (cur, out)" by (cases st)
  show ?case
  proof (cases "g = h")
    case True
    show ?thesis
    proof (cases "sliceExpr sourceBody (sint (cur - 1)) (sint (OrigStartLine g - 1))")
      case (Inl e)
      then show ?thesis by (simp add: st)
    next
      case (Inr untouched)
      obtain e where "lines sourceBody (ls @ [[]]) (OrigStartLine g, out @ untouched) = Inl e"
        using assms by blast
      then show ?thesis
        using Inr True Cons.prems(2) by (simp add: st hunkLines_def)
    qed
  next
    case False
    then have "h \<in> set hunks" using Cons.prems(1) by simp
    then show ?thesis
      using Cons.IH Cons.prems(2) by (auto simp: st split: sum.splits)
  qed
qed

text \<open>
  A patch reverted by revertHunks never applies when one of its hunks has a body that ends
  in "\\n", as every body of the parser does: the applier returns an error or panics,
  whatever the source is.
\<close>

theorem reverted_patch_never_applies:
  assumes "h \<in> set (Hunks d)" and "Body h = b @ [NL]"
  shows "\<exists>e. applyDiff source (Some (revertHunks d)) = Inl e"
proof -
  have "revertedHunk h \<in> set (Hunks (revertHunks d))"
    using assms(1) by (simp add: revertHunks_def)
  moreover have "hunkLines (revertedHunk h) = map revertedLine (hunkLines h) @ [[]]"
    using assms(2) by (rule revertedHunk_extra_line)
  ultimately obtain e where
    "applyHunks applyLines (Split source NL) (Hunks (revertHunks d)) (1, []) = Inl e"
    using applyHunks_empty_line [of applyLines, OF applyLines_empty_line] by blast
  then show ?thesis
    by (simp add: applyDiff_def applyTail_def)
qed

lemma sint_succ:
  fixes w :: int32
  assumes "0 \<le> sint (w + 1)" and "0 \<le> sint w"
  shows "sint (w + 1) = sint w + 1"
proof -
  have up: "sint w < 2 ^ 31"
    using sint_lt [of w] by simp
  have eq: "sint (w + 1) = signed_take_bit 31 (sint w + 1)"
    by (simp add: sint_word_ariths)
  show ?thesis
  proof (cases "sint w + 1 < 2 ^ 31")
    case True
    then have "signed_take_bit 31 (sint w + 1) = sint w + 1"
      using assms(2) by (intro signed_take_bit_int_eq_self) auto
    then show ?thesis using eq by simp
  next
    case False
    then have "sint w + 1 = 2 ^ 31" using up by simp
    then have "sint (w + 1) = signed_take_bit 31 (2 ^ 31 :: int)" using eq by simp
    also have "\<dots> = - (2 ^ 31)" by code_simp
    finally show ?thesis using assms(1) by simp
  qed
qed

lemma applyLines_in_source:
  "applyLines sourceBody ls (cur, out) = Inr r \<Longrightarrow>
   0 < length (filter (\<lambda>line. \<not> HasPrefix line ''+'') ls) \<Longrightarrow>
   0 \<le> sint (cur - 1) \<and>
   sint (cur - 1) + int (length (filter (\<lambda>line. \<not> HasPrefix line ''+'') ls))
     \<le> int (length sourceBody)"
proof (induction ls arbitrary: cur out)
  case Nil
  then show ?case by simp
next
  case (Cons line ls)
  let ?n = "length (filter (\<lambda>line. \<not> HasPrefix line ''+'') ls)"
  show ?case
  proof (cases "HasPrefix line ''+''")
    case True
    then show ?thesis
      using Cons.IH [of cur "out @ [tl line]"] Cons.prems by simp
  next
    case False
    obtain out' where ix: "0 \<le> sint (cur - 1)" "sint (cur - 1) < int (length sourceBody)"
      and rec: "applyLines sourceBody ls (cur + 1, out') = Inr r"
      using Cons.prems(1) False
      by (auto simp: indexExpr_def split: list.splits sum.splits if_splits)
    show ?thesis
    proof (cases "?n = 0")
      case True
      then show ?thesis using ix False by simp
    next
      case nz: False
      then have ih: "0 \<le> sint (cur + 1 - 1)"
        "sint (cur + 1 - 1) + int ?n \<le> int (length sourceBody)"
        using Cons.IH [OF rec] by simp_all
      have "cur + 1 - 1 = (cur - 1) + 1" by simp
      then have "sint (cur + 1 - 1) = sint (cur - 1) + 1"
        using sint_succ [of "cur - 1"] ih(1) ix(1) by simp
      then show ?thesis using ih ix False by simp
    qed
  qed
qed

lemma applyLines_v1_in_source:
  "applyLines_v1 sourceBody ls (cur, out) = Inr r \<Longrightarrow>
   0 < length (filter (\<lambda>line. \<not> HasPrefix line ''+'') ls) \<Longrightarrow>
   0 \<le> sint (cur - 1) \<and>
   sint (cur - 1) + int (length (filter (\<lambda>line. \<not> HasPrefix line ''+'') ls))
     \<le> int (length sourceBody)"
proof (induction ls arbitrary: cur out)
  case Nil
  then show ?case by simp
next
  case (Cons line ls)
  let ?n = "length (filter (\<lambda>line. \<not> HasPrefix line ''+'') ls)"
  show ?case
  proof (cases "HasPrefix line ''+''")
    case True
    then show ?thesis
      using Cons.IH [of cur "out @ [tl line]"] Cons.prems by (simp split: if_splits)
  next
    case False
    obtain out' where ix: "0 \<le> sint (cur - 1)" "sint (cur - 1) < int (length sourceBody)"
      and rec: "applyLines_v1 sourceBody ls (cur + 1, out') = Inr r"
      using Cons.prems(1) False
      by (auto simp: indexExpr_def split: list.splits sum.splits if_splits)
    show ?thesis
    proof (cases "?n = 0")
      case True
      then show ?thesis using ix False by simp
    next
      case nz: False
      then have ih: "0 \<le> sint (cur + 1 - 1)"
        "sint (cur + 1 - 1) + int ?n \<le> int (length sourceBody)"
        using Cons.IH [OF rec] by simp_all
      have "cur + 1 - 1 = (cur - 1) + 1" by simp
      then have "sint (cur + 1 - 1) = sint (cur - 1) + 1"
        using sint_succ [of "cur - 1"] ih(1) ix(1) by simp
      then show ?thesis using ih ix False by simp
    qed
  qed
qed

lemma applyHunks_in_source:
  assumes "\<forall>sourceBody ls cur out r.
      lines sourceBody ls (cur, out) = Inr r \<longrightarrow>
      0 < length (filter (\<lambda>line. \<not> HasPrefix line ''+'') ls) \<longrightarrow>
      0 \<le> sint (cur - 1) \<and>
      sint (cur - 1) + int (length (filter (\<lambda>line. \<not> HasPrefix line ''+'') ls))
        \<le> int (length sourceBody)"
  shows "applyHunks lines sourceBody hunks st = Inr r \<Longrightarrow> h \<in> set hunks \<Longrightarrow>
         sint (OrigStartLine h - 1) + int (anchorCount h) \<le> int (length sourceBody)"
proof (induction hunks arbitrary: st)
  case Nil
  then show ?case by simp
next
  case (Cons g hunks)
  obtain cur out where st: "st = (cur, out)" by (cases st)
  obtain untouched st' where
    sl: "sliceExpr sourceBody (sint (cur - 1)) (sint (OrigStartLine g - 1)) = Inr untouched"
    and ln: "lines sourceBody (hunkLines g) (OrigStartLine g, out @ untouched) = Inr st'"
    and rest: "applyHunks lines sourceBody hunks st' = Inr r"
    using Cons.prems(1) by (auto simp: st hunkLines_def split: sum.splits)
  show ?case
  proof (cases "g = h")
    case True
    have hi: "sint (OrigStartLine h - 1) \<le> int (length sourceBody)"
      using sl True by (simp add: sliceExpr_def split: if_splits)
    show ?thesis
    proof (cases "anchorCount h = 0")
      case True
      then show ?thesis using hi by simp
    next
      case False
      then show ?thesis
        using assms ln True unfolding anchorCount_def by blast
    qed
  next
    case False
    then show ?thesis
      using Cons.IH [OF rest] Cons.prems(2) by simp
  qed
qed

text \<open>
  In both revisions the applier returns no string when the lines of some hunk that are
  compared with the source would go past its last line: it returns an error or panics.
\<close>

theorem hunk_past_end_gives_no_output:
  assumes "h \<in> set (Hunks d)"
    and "int (length (Split source NL)) < sint (OrigStartLine h - 1) + int (anchorCount h)"
  shows "(\<exists>e. applyDiff source (Some d) = Inl e) \<and> (\<exists>e. applyDiff_v1 source d = Inl e)"
proof -
  have la: "\<forall>sourceBody ls cur out r.
      applyLines sourceBody ls (cur, out) = Inr r \<longrightarrow>
      0 < length (filter (\<lambda>line. \<not> HasPrefix line ''+'') ls) \<longrightarrow>
      0 \<le> sint (cur - 1) \<and>
      sint (cur - 1) + int (length (filter (\<lambda>line. \<not> HasPrefix line ''+'') ls))
        \<le> int (length sourceBody)"
    using applyLines_in_source by blast
  have lb: "\<forall>sourceBody ls cur out r.
      applyLines_v1 sourceBody ls (cur, out) = Inr r \<longrightarrow>
      0 < length (filter (\<lambda>line. \<not> HasPrefix line ''+'') ls) \<longrightarrow>
      0 \<le> sint (cur - 1) \<and>
      sint (cur - 1) + int (length (filter (\<lambda>line. \<not> HasPrefix line ''+'') ls))
        \<le> int (length sourceBody)"
    using applyLines_v1_in_source by blast
  have a: "applyHunks applyLines (Split source NL) (Hunks d) (1, []) \<noteq> Inr r" for r
  proof
    assume e: "applyHunks applyLines (Split source NL) (Hunks d) (1, []) = Inr r"
    have "sint (OrigStartLine h - 1) + int (anchorCount h) \<le> int (length (Split source NL))"
      by (rule applyHunks_in_source [OF la e assms(1)])
    then show False using assms(2) by simp
  qed
  have b: "applyHunks applyLines_v1 (Split source NL) (Hunks d) (1, []) \<noteq> Inr r" for r
  proof
    assume e: "applyHunks applyLines_v1 (Split source NL) (Hunks d) (1, []) = Inr r"
    have "sint (OrigStartLine h - 1) + int (anchorCount h) \<le> int (length (Split source NL))"
      by (rule applyHunks_in_source [OF lb e assms(1)])
    then show False using assms(2) by simp
  qed
  have "\<exists>e. applyHunks applyLines (Split source NL) (Hunks d) (1, []) = Inl e"
    using a by (cases "applyHunks applyLines (Split source NL) (Hunks d) (1, [])") auto
  moreover have "\<exists>e. applyHunks applyLines_v1 (Split source NL) (Hunks d) (1, []) = Inl e"
    using b by (cases "applyHunks applyLines_v1 (Split source NL) (Hunks d) (1, [])") auto
  ultimately show ?thesis
    by (auto simp: applyDiff_def applyDiff_v1_def applyTail_def)
qed

theorem empty_patch_is_identity_witness:
  "Hunks (fileDiffOf ''f'' []) = [] \<and>
   applyDiff sevenLines (Some (fileDiffOf ''f'' [])) = Inr sevenLines \<and>
   applyDiff_v1 sevenLines (fileDiffOf ''f'' []) = Inr sevenLines"
  using empty_patch_is_identity [of sevenLines "fileDiffOf ''f'' []"]
  by (simp add: fileDiffOf_def)

theorem reverted_patch_never_applies_witness:
  "hd (Hunks exReplace) \<in> set (Hunks exReplace) \<and>
   Body (hd (Hunks exReplace)) = ''-a'' @ [NL] @ ''+b'' @ [NL] \<and>
   (\<exists>e. applyDiff ''b'' (Some (revertHunks exReplace)) = Inl e)"
proof -
  have m: "hd (Hunks exReplace) \<in> set (Hunks exReplace)"
    by (simp add: exReplace_def fileDiffOf_def)
  have b: "Body (hd (Hunks exReplace)) = (''-a'' @ [NL] @ ''+b'') @ [NL]"
    by (simp add: exReplace_def fileDiffOf_def hunkOf_def bodyOf_def)
  show ?thesis
    using reverted_patch_never_applies [OF m b, of "''b''"] m b by simp
qed

theorem hunk_past_end_gives_no_output_witness:
  "hunkOf 1 2 1 2 ['' a'', '' b''] \<in> set (Hunks (fileDiffOf ''f'' [hunkOf 1 2 1 2 ['' a'', '' b'']])) \<and>
   int (length (Split ''a'' NL))
     < sint (OrigStartLine (hunkOf 1 2 1 2 ['' a'', '' b'']) - 1)
       + int (anchorCount (hunkOf 1 2 1 2 ['' a'', '' b''])) \<and>
   (\<exists>e. applyDiff ''a'' (Some (fileDiffOf ''f'' [hunkOf 1 2 1 2 ['' a'', '' b'']])) = Inl e) \<and>
   (\<exists>e. applyDiff_v1 ''a'' (fileDiffOf ''f'' [hunkOf 1 2 1 2 ['' a'', '' b'']]) = Inl e)"
proof -
  let ?h = "hunkOf 1 2 1 2 ['' a'', '' b'']"
  have m: "?h \<in> set (Hunks (fileDiffOf ''f'' [?h]))"
    by (simp add: fileDiffOf_def)
  have c: "anchorCount ?h = 2"
    by code_simp
  have s: "sint (OrigStartLine ?h - 1) = 0"
    by (simp add: hunkOf_def)
  have p: "int (length (Split ''a'' NL)) < sint (OrigStartLine ?h - 1) + int (anchorCount ?h)"
    by (simp add: c s)
  show ?thesis
    using hunk_past_end_gives_no_output [OF m p] m p by simp
qed

section \<open>A loop of the merger that does not end\<close>

lemma mergeStep_stuck:
  assumes "lineI st = -1" and "lineJ st = -1"
    and "currentOldHunkI st < length oldHunks \<longrightarrow>
           currentOrgI st \<noteq> OrigStartLine (oldHunks ! currentOldHunkI st)"
    and "currentNewHunkJ st < length newHunks \<longrightarrow>
           currentOrgI st \<noteq> OrigStartLine (newHunks ! currentNewHunkJ st)"
  shows "mergeStep both oldHunks newHunks st = Inr st"
proof -
  have o: "enterOld oldHunks st = st"
    using assms(3) by (auto simp: enterOld_def)
  have n: "enterNew newHunks st = st"
    using assms(4) by (auto simp: enterNew_def)
  have c: "closeHunks st = st"
    using assms(1,2) by (simp add: closeHunks_def Let_def)
  show ?thesis
    using assms(1,2) by (simp add: mergeStep_def o n c Let_def)
qed

text \<open>
  The loop of the merger does not end from a state with hunks left in which no hunk is
  open and none starts at currentOrgI: the iteration changes nothing. (The spec describes
  an increment of currentOrgI in this case; the switch of the source has an empty case.)
\<close>

theorem no_open_hunk_loops_forever:
  assumes "hunksLeft oldHunks newHunks st"
    and "lineI st = -1" and "lineJ st = -1"
    and "currentOldHunkI st < length oldHunks \<longrightarrow>
           currentOrgI st \<noteq> OrigStartLine (oldHunks ! currentOldHunkI st)"
    and "currentNewHunkJ st < length newHunks \<longrightarrow>
           currentOrgI st \<noteq> OrigStartLine (newHunks ! currentNewHunkJ st)"
  shows "mergeLoop both oldHunks newHunks fuel st = None"
proof (induction fuel)
  case 0
  then show ?case using assms(1) by simp
next
  case (Suc fuel)
  then show ?case
    using assms(1) mergeStep_stuck [OF assms(2-5), of both] by simp
qed

text \<open>
  The witness: after the two lines of the old hunk currentOrgI is 3, the old hunk is closed
  and the new hunk starts at line 4.
\<close>

theorem no_open_hunk_loops_forever_witness:
  "\<forall>fuel. mergeOverlappingHunks prefixDiffChunks (2 + fuel) [shortOld] [lateNew] = None \<and>
     interFileDiff prefixDiffChunks (2 + fuel)
         (fileDiffOf ''f'' [shortOld]) (fileDiffOf ''f'' [lateNew]) = None"
proof
  fix fuel
  let ?DiffChunks = prefixDiffChunks
  define st where "st =
    \<lparr> currentOrgI = 3 :: int32, currentOldHunkI = 1, currentNewHunkJ = 0, lineI = -1,
      lineJ = -1, newBody = ['' a'', '' b''], oldHunkBody = ['' a'', '' b''],
      newHunkBody = [] \<rparr>"
  have s: "mergeSteps (bothOpen ?DiffChunks) [shortOld] [lateNew] 2 (initialState 1) = Some st"
    unfolding st_def by code_simp
  have l: "hunksLeft [shortOld] [lateNew] st"
    unfolding st_def by code_simp
  have o: "currentOldHunkI st < length [shortOld] \<longrightarrow>
           currentOrgI st \<noteq> OrigStartLine ([shortOld] ! currentOldHunkI st)"
    by (simp add: st_def)
  have n: "currentNewHunkJ st < length [lateNew] \<longrightarrow>
           currentOrgI st \<noteq> OrigStartLine ([lateNew] ! currentNewHunkJ st)"
    by (simp add: st_def lateNew_def hunkOf_def)
  have i: "lineI st = -1" "lineJ st = -1"
    by (simp_all add: st_def)
  have "mergeLoop (bothOpen ?DiffChunks) [shortOld] [lateNew] fuel st = None"
    using l i o n by (rule no_open_hunk_loops_forever)
  then have loop: "mergeLoop (bothOpen ?DiffChunks) [shortOld] [lateNew] (2 + fuel) (initialState 1)
      = None"
    using mergeLoop_after_steps [OF s, of fuel] by simp
  have c: "configureResultHunk [shortOld] [lateNew]
             = Inr ((hunkOf 1 5 1 5 [])\<lparr> Body := [CHR 0x00] \<rparr>, 1)"
    by code_simp
  have m: "mergeOverlappingHunks ?DiffChunks (2 + fuel) [shortOld] [lateNew] = None"
    using c loop by (simp add: mergeOverlappingHunks_def mergeWith_def)
  have d: "\<not> OrigStartLine shortOld + OrigLines shortOld <s OrigStartLine lateNew"
    "\<not> OrigStartLine lateNew + OrigLines lateNew <s OrigStartLine shortOld"
    by (simp_all add: shortOld_def lateNew_def hunkOf_def word_sless_alt)
  show "mergeOverlappingHunks prefixDiffChunks (2 + fuel) [shortOld] [lateNew] = None \<and>
     interFileDiff prefixDiffChunks (2 + fuel)
         (fileDiffOf ''f'' [shortOld]) (fileDiffOf ''f'' [lateNew]) = None"
    using m d by (simp add: interFileDiff_def fileDiffOf_def)
qed

end
